theory Spec2Isabelle
  imports Main "HOL-Library.AList" "HOL-Library.Sublist"
begin

section \<open>JavaScript values\<close>

text \<open>
  The values the handlers touch. An object is the list of its own enumerable string-keyed
  properties in enumeration order; a well-formed object lists every key once. An
  \<open>Error\<close> instance carries its message (not enumerable) apart from its enumerable
  properties. Numbers are restricted to integers.
\<close>

datatype jsval =
    JUndefined
  | JNull
  | JBool bool
  | JNum int
  | JBigInt int
  | JStr string
  | JArr "jsval list"
  | JObj "(string \<times> jsval) list"
  | JError string "(string \<times> jsval) list"

type_synonym jsobj = "(string \<times> jsval) list"

text \<open>Truthiness, as \<open>!x\<close>, \<open>x || y\<close> and \<open>if (x)\<close> read it.\<close>

fun truthy :: "jsval \<Rightarrow> bool" where
  "truthy JUndefined = False"
| "truthy JNull = False"
| "truthy (JBool b) = b"
| "truthy (JNum n) = (n \<noteq> 0)"
| "truthy (JBigInt n) = (n \<noteq> 0)"
| "truthy (JStr s) = (s \<noteq> [])"
| "truthy (JArr xs) = True"
| "truthy (JObj ps) = True"
| "truthy (JError m ps) = True"

definition js_or :: "jsval \<Rightarrow> jsval \<Rightarrow> jsval" where
  "js_or a b = (if truthy a then a else b)"

text \<open>\<open>obj[k]\<close> on an object: the property's value, \<open>undefined\<close> when it has none.\<close>

definition get_prop :: "jsobj \<Rightarrow> string \<Rightarrow> jsval" where
  "get_prop obj k = (case map_of obj k of None \<Rightarrow> JUndefined | Some v \<Rightarrow> v)"

section \<open>Administrative permission gate (middleware/business/administration.ts)\<close>

text \<open>
  How the promise returned by \<open>isPortalAdministrator()\<close> ends: resolved with a value,
  rejected with a reason, or never settled.
\<close>

datatype promise = Resolved jsval | Rejected jsval | Pending

text \<open>
  \<open>wrapError(inner, message, skipLog)\<close> comes from \<open>utils\<close>, which is not among the
  sources: the error it builds is kept as the triple of its arguments.
\<close>

datatype wrapped_error = WrapError jsval string bool

text \<open>What a middleware did with \<open>next\<close>: \<open>next()\<close>, \<open>next(err)\<close>, or no call.\<close>

datatype 'e next_call = Next | NextError 'e | NoCall

record individualContext =
  isPortalAdministrator :: promise

record AdminRequest =
  individualContext :: individualContext

definition denyMessage :: string where
  "denyMessage =
     ''These aren't the droids you are looking for. You do not have permission to be here.''"

definition denyRoute :: "wrapped_error next_call" where
  "denyRoute = NextError (WrapError JNull denyMessage True)"

definition requirePortalAdministrationPermission :: "AdminRequest \<Rightarrow> wrapped_error next_call" where
  "requirePortalAdministrationPermission req =
     (case isPortalAdministrator (individualContext req) of
        Resolved isAdmin \<Rightarrow> (if isAdmin = JBool True then Next else denyRoute)
      | Rejected err \<Rightarrow> denyRoute
      | Pending \<Rightarrow> NoCall)"

section \<open>Collaborator (business/collaborator)\<close>

text \<open>
  \<open>GitHubRepositoryPermission\<close> is declared in \<open>interfaces\<close>, which is not among the
  sources: only its member \<open>None\<close> is named here, the other members are left open.
  The private fields hold JavaScript values; a field that was never assigned holds
  \<open>undefined\<close>.
\<close>

datatype 'm GitHubRepositoryPermission = PermissionNone | PermissionOther 'm

record Collaborator =
  avatar_url_field :: jsval
  id_field :: jsval
  login_field :: jsval
  permissions_field :: jsval

definition memberPrimaryProperties :: "string list" where
  "memberPrimaryProperties = [''id'', ''login'', ''permissions'', ''avatar_url'']"

definition unassigned :: Collaborator where
  "unassigned = \<lparr> avatar_url_field = JUndefined, id_field = JUndefined, login_field = JUndefined,
                  permissions_field = JUndefined \<rparr>"

text \<open>
  The constructor. \<open>common.assignKnownFieldsPrefixed\<close> is not among the sources and is a
  parameter: it receives the fresh object, the entity, the type name and the property list.
\<close>

definition new_Collaborator ::
  "(Collaborator \<Rightarrow> jsval \<Rightarrow> string \<Rightarrow> string list \<Rightarrow> Collaborator) \<Rightarrow> jsval \<Rightarrow> Collaborator"
where
  "new_Collaborator assignKnownFieldsPrefixed entity =
     (if truthy entity
      then assignKnownFieldsPrefixed unassigned entity ''member'' memberPrimaryProperties
      else unassigned)"

text \<open>
  \<open>projectCollaboratorPermissionsObjectToGitHubRepositoryPermission\<close> comes from
  \<open>transitional\<close>, which is not among the sources, and is a parameter. The method tests
  \<open>!this._permissions\<close>: every falsy value of the field gives \<open>None\<close>.
\<close>

definition getHighestPermission ::
  "(jsval \<Rightarrow> 'm GitHubRepositoryPermission) \<Rightarrow> Collaborator \<Rightarrow> 'm GitHubRepositoryPermission"
where
  "getHighestPermission project c =
     (if \<not> truthy (permissions_field c) then PermissionNone
      else project (permissions_field c))"

section \<open>Strings\<close>

text \<open>
  \<open>String.prototype.toLowerCase\<close> on the ASCII letters; every other character is left
  as it is. The constants the gatekeeper compares with are ASCII.
\<close>

definition lower_char :: "char \<Rightarrow> char" where
  "lower_char c =
     (let n = (of_char c :: nat) in if 65 \<le> n \<and> n \<le> 90 then char_of (n + 32) else c)"

definition lower_string :: "string \<Rightarrow> string" where
  "lower_string s = map lower_char s"

text \<open>
  \<open>v.toLowerCase()\<close> on a value: only a string has the method, on anything else the
  call throws a \<open>TypeError\<close>.
\<close>

fun toLowerCase :: "jsval \<Rightarrow> jsval + string" where
  "toLowerCase (JStr s) = Inr (lower_string s)"
| "toLowerCase v = Inl (JError ''toLowerCase is not a function'' [])"

section \<open>Requests and errors of the API router (api/index)\<close>

text \<open>
  \<open>jsonError(messageOrError, statusCode)\<close> comes from \<open>middleware\<close>, which is not
  among the sources: the error it builds is kept as the pair of its arguments. A value
  thrown inside a synchronous middleware is handed to \<open>next\<close> by Express.
\<close>

datatype api_error = JsonError jsval nat | Thrown jsval

text \<open>
  The key token of the authenticated identity. Its class is not among the sources:
  \<open>organizationScopes\<close> is the optional list of organization names (\<open>None\<close> when
  the key has no such configuration).
\<close>

record ApiKeyToken =
  organizationScopes :: "string list option"

text \<open>
  Modelled from the spec: the method \<open>hasOrganizationScope\<close> of the key token class
  is missing from the sources. The grants include the requested organization name or the
  wildcard-all marker \<open>*\<close>.
\<close>

definition hasOrganizationScope :: "ApiKeyToken \<Rightarrow> string \<Rightarrow> bool" where
  "hasOrganizationScope token orgName =
     (case organizationScopes token of
        None \<Rightarrow> False
      | Some grants \<Rightarrow> orgName \<in> set grants \<or> ''*'' \<in> set grants)"

record 'org ApiRequest =
  path :: string
  query :: jsobj
  headers :: jsobj
  body :: jsobj
  params_org :: string
  apiVersion :: jsval
  apiKeyToken :: ApiKeyToken
  organization :: "'org option"

text \<open>
  A middleware of the router either hands an error to \<open>next\<close> (\<open>Inl\<close>) or calls
  \<open>next()\<close> with the request as it left it (\<open>Inr\<close>). Express runs the stack in
  order and, once an error was handed to \<open>next\<close>, skips every later middleware that is
  not an error handler.
\<close>

type_synonym 'org middleware = "'org ApiRequest \<Rightarrow> api_error + 'org ApiRequest"

fun dispatch :: "'org middleware list \<Rightarrow> 'org ApiRequest \<Rightarrow> api_error + 'org ApiRequest" where
  "dispatch [] req = Inr req"
| "dispatch (m # ms) req = (case m req of Inl err \<Rightarrow> Inl err | Inr req' \<Rightarrow> dispatch ms req')"

subsection \<open>Version gatekeeper\<close>

definition hardcodedApiVersions :: "string list" where
  "hardcodedApiVersions = [''2019-10-01'', ''2019-02-01'', ''2017-09-01'', ''2017-03-08'', ''2016-12-01'']"

definition isClientRoute :: "'org ApiRequest \<Rightarrow> bool" where
  "isClientRoute req = prefix ''/client'' (lower_string (path req))"

text \<open>\<open>req.query['api-version'] || req.headers['api-version']\<close>\<close>

definition requestedApiVersion :: "'org ApiRequest \<Rightarrow> jsval" where
  "requestedApiVersion req =
     js_or (get_prop (query req) ''api-version'') (get_prop (headers req) ''api-version'')"

definition missingVersionError :: api_error where
  "missingVersionError =
     JsonError (JStr ''This endpoint requires that an API Version be provided.'') 422"

definition retiredVersionMessage :: string where
  "retiredVersionMessage =
     ''This endpoint no longer supports the original preview version. Please update your client to use a newer version such as ''
     @ hd hardcodedApiVersions"

definition unsupportedVersionError :: api_error where
  "unsupportedVersionError =
     JsonError (JStr ''This endpoint does not support the API version you provided at this time.'') 422"

definition versionGatekeeper :: "'org middleware" where
  "versionGatekeeper req =
     (if isClientRoute req then Inr req
      else
        let apiVersion = requestedApiVersion req in
        if \<not> truthy apiVersion then Inl missingVersionError
        else
          (case toLowerCase apiVersion of
             Inl ex \<Rightarrow> Inl (Thrown ex)
           | Inr lowered \<Rightarrow>
               if lowered = lower_string ''2016-09-22_Preview''
               then Inl (JsonError (JStr retiredVersionMessage) 422)
               else if lowered \<notin> set hardcodedApiVersions then Inl unsupportedVersionError
               else Inr (req\<lparr>apiVersion := apiVersion\<rparr>)))"

subsection \<open>Organization resolution of POST /:org/repos\<close>

text \<open>
  \<open>getProviders(req).operations.getOrganization\<close> is a parameter: it returns the
  organization or throws.
\<close>

definition resolveOrganization :: "(string \<Rightarrow> jsval + 'org) \<Rightarrow> 'org middleware" where
  "resolveOrganization getOrganization req =
     (let orgName = params_org req in
      if organizationScopes (apiKeyToken req) = None
      then Inl (JsonError (JStr ''There is a problem with the key configuration (no organization scopes)'') 412)
      else if \<not> hasOrganizationScope (apiKeyToken req) orgName
      then Inl (JsonError (JStr ''The key is not authorized for this organization'') 401)
      else
        (case getOrganization orgName of
           Inl ex \<Rightarrow> Inl (JsonError ex 400)
         | Inr org \<Rightarrow> Inr (req\<lparr>organization := Some org\<rparr>)))"

subsection \<open>Creation handler of POST /:org/repos\<close>

text \<open>
  The own properties of an ordinary object are enumerated with the array-index keys first,
  in ascending numeric order, and the other string keys after them, in the order in which
  they were created. An array index is the canonical decimal form of an integer up to
  \<open>2^32 - 2\<close>.
\<close>

definition is_digit :: "char \<Rightarrow> bool" where
  "is_digit c = (let n = (of_char c :: nat) in 48 \<le> n \<and> n \<le> 57)"

definition digits_value :: "string \<Rightarrow> int" where
  "digits_value s = foldl (\<lambda>n c. 10 * n + (int (of_char c) - 48)) 0 s"

definition array_index :: "string \<Rightarrow> int option" where
  "array_index k =
     (if k \<noteq> [] \<and> list_all is_digit k \<and> (if hd k = CHR ''0'' then length k = 1 else True)
         \<and> digits_value k \<le> 4294967294
      then Some (digits_value k) else None)"

text \<open>A new array-index key takes its place among the array-index keys.\<close>

fun insert_index :: "int \<Rightarrow> string \<Rightarrow> jsval \<Rightarrow> jsobj \<Rightarrow> jsobj" where
  "insert_index i k v [] = [(k, v)]"
| "insert_index i k v (p # ps) =
     (case array_index (fst p) of
        Some j \<Rightarrow> (if j \<le> i then p # insert_index i k v ps else (k, v) # p # ps)
      | None \<Rightarrow> (k, v) # p # ps)"

text \<open>
  Creating or overwriting an own data property: a key the object has keeps its place, a
  new array-index key is inserted in numeric order, any other new key goes last.
\<close>

definition define_property :: "string \<Rightarrow> jsval \<Rightarrow> jsobj \<Rightarrow> jsobj" where
  "define_property k v obj =
     (case array_index k of
        None \<Rightarrow> AList.update k v obj
      | Some i \<Rightarrow> (if k \<in> fst ` set obj then AList.update k v obj else insert_index i k v obj))"

text \<open>
  An object under construction: its own properties and its prototype, which is
  \<open>Object.prototype\<close>, \<open>null\<close>, or an object value.
\<close>

datatype js_prototype = ObjectPrototype | NullPrototype | PrototypeObject jsval

record js_object =
  own_properties :: jsobj
  prototype :: js_prototype

definition empty_object :: js_object where
  "empty_object = \<lparr> own_properties = [], prototype = ObjectPrototype \<rparr>"

text \<open>The own enumerable properties that a value has as an object.\<close>

fun entries_of :: "jsval \<Rightarrow> jsobj" where
  "entries_of (JObj ps) = ps"
| "entries_of (JError m ps) = ps"
| "entries_of v = []"

text \<open>
  Whether an assignment to \<open>__proto__\<close> on an object with this prototype reaches the
  accessor of \<open>Object.prototype\<close>: not when the prototype is \<open>null\<close>, and not when
  the prototype object has an own property of that name (as \<open>JSON.parse\<close> creates it).
\<close>

fun reaches_proto_accessor :: "js_prototype \<Rightarrow> bool" where
  "reaches_proto_accessor ObjectPrototype = True"
| "reaches_proto_accessor NullPrototype = False"
| "reaches_proto_accessor (PrototypeObject p) = (''__proto__'' \<notin> fst ` set (entries_of p))"

text \<open>
  The setter of \<open>__proto__\<close>: an object or \<open>null\<close> becomes the prototype, any other
  value is ignored.
\<close>

fun set_prototype :: "jsval \<Rightarrow> js_prototype \<Rightarrow> js_prototype" where
  "set_prototype JNull old = NullPrototype"
| "set_prototype (JObj ps) old = PrototypeObject (JObj ps)"
| "set_prototype (JArr xs) old = PrototypeObject (JArr xs)"
| "set_prototype (JError m ps) old = PrototypeObject (JError m ps)"
| "set_prototype v old = old"

text \<open>
  The assignment \<open>target[k] = v\<close>. An own property is overwritten. Otherwise the key
  \<open>__proto__\<close>, when it reaches the accessor, sets the prototype and creates no own
  property; every other key creates an own property.
\<close>

definition set_property :: "js_object \<Rightarrow> string \<Rightarrow> jsval \<Rightarrow> js_object" where
  "set_property target k v =
     (if k = ''__proto__'' \<and> k \<notin> fst ` set (own_properties target)
         \<and> reaches_proto_accessor (prototype target)
      then target\<lparr>prototype := set_prototype v (prototype target)\<rparr>
      else target\<lparr>own_properties := define_property k v (own_properties target)\<rparr>)"

text \<open>
  \<open>Object.assign(target, source)\<close>: every own enumerable property of the source, in
  order, is assigned to the target.
\<close>

definition Object_assign :: "js_object \<Rightarrow> jsobj \<Rightarrow> js_object" where
  "Object_assign target source = foldl (\<lambda>t (k, v). set_property t k v) target source"

text \<open>\<open>delete target[k]\<close> removes an own property.\<close>

definition delete_property :: "string \<Rightarrow> js_object \<Rightarrow> js_object" where
  "delete_property k target = target\<lparr>own_properties := AList.delete k (own_properties target)\<rparr>"

text \<open>
  The spread \<open>{ ...obj }\<close>: the own enumerable properties are created, in order, as own
  data properties of a fresh object.
\<close>

definition spread :: "jsobj \<Rightarrow> jsobj" where
  "spread obj = foldl (\<lambda>t (k, v). define_property k v t) [] obj"

text \<open>
  The enumeration order of own properties: every key once, no array-index key after a key
  that is not one, and the array-index keys in ascending order.
\<close>

definition key_before :: "string \<Rightarrow> string \<Rightarrow> bool" where
  "key_before k k' =
     (case array_index k' of
        None \<Rightarrow> True
      | Some j \<Rightarrow> (case array_index k of None \<Rightarrow> False | Some i \<Rightarrow> i \<le> j))"

definition enumeration_order :: "jsobj \<Rightarrow> bool" where
  "enumeration_order obj = (distinct (map fst obj) \<and> sorted_wrt key_before (map fst obj))"

text \<open>
  \<open>error.message\<close> on a caught value: reading a property of \<open>undefined\<close> or
  \<open>null\<close> throws a \<open>TypeError\<close>; a value without the property gives \<open>undefined\<close>.
\<close>

definition cannotReadMessage :: jsval where
  "cannotReadMessage = JError ''Cannot read properties of undefined or null (reading message)'' []"

fun read_message :: "jsval \<Rightarrow> jsval + jsval" where
  "read_message JUndefined = Inl cannotReadMessage"
| "read_message JNull = Inl cannotReadMessage"
| "read_message (JObj ps) = Inr (get_prop ps ''message'')"
| "read_message (JError m ps) = Inr (JStr m)"
| "read_message v = Inr JUndefined"

record telemetry_event =
  name :: string
  properties :: jsobj

text \<open>
  The customization hook (\<open>providers.customizedNewRepositoryLogic\<close>) with its method
  \<open>createContext\<close>, which returns the custom context or throws.
\<close>

record ('org, 'ctx) RepositoryLogic =
  createContext :: "'org ApiRequest \<Rightarrow> jsval + 'ctx"

text \<open>
  \<open>CreateRepositoryEntrypoint\<close> is declared in \<open>createRepo\<close>, which is not among the
  sources; the handler names its member \<open>Api\<close>.
\<close>

datatype CreateRepositoryEntrypoint = Api | Client

text \<open>
  The six arguments of one call of \<open>CreateRepository\<close>; the payload object is given by
  its own properties and its prototype.
\<close>

record ('org, 'ctx) CreateRepositoryCall =
  call_req :: "'org ApiRequest"
  call_organization :: "'org option"
  call_logic :: "('org, 'ctx) RepositoryLogic option"
  call_customContext :: "'ctx option"
  call_payload :: jsobj
  call_payload_prototype :: js_prototype
  call_entrypoint :: CreateRepositoryEntrypoint

text \<open>
  What the handler is given from outside: the configured hook (if any), the downstream
  \<open>CreateRepository\<close> (\<open>Inl\<close> the reason it rejected with, \<open>Inr\<close> its result; it is
  handed the payload by value) and the runtime's \<open>JSON.stringify\<close>, which returns a
  string or \<open>undefined\<close>, or throws.
\<close>

record ('org, 'ctx) externals =
  customizedNewRepositoryLogic :: "('org, 'ctx) RepositoryLogic option"
  CreateRepository :: "('org, 'ctx) CreateRepositoryCall \<Rightarrow> jsval + jsval"
  JSON_stringify :: "jsval \<Rightarrow> jsval + jsval"

text \<open>
  What one run of the handler did: the telemetry events in the order of emission, each
  with its property map as it was when \<open>trackEvent\<close> was called; the call of
  \<open>CreateRepository\<close>, if it was made; the response status (200 until set); the body
  handed to \<open>res.json\<close>, if any; the error handed to \<open>next\<close>, if any (by the
  handler itself or, for a value thrown out of it, by the \<open>asyncHandler\<close> wrapper).
\<close>

record ('org, 'ctx) outcome =
  tracked :: "telemetry_event list"
  created :: "('org, 'ctx) CreateRepositoryCall option"
  status :: nat
  json :: "jsval option"
  forwarded :: "jsval option"

text \<open>The variable \<open>convergedObject\<close> when it is created: \<open>Object.assign({}, req.headers)\<close>.\<close>

definition observedObject :: "'org ApiRequest \<Rightarrow> js_object" where
  "observedObject req = Object_assign empty_object (headers req)"

text \<open>The property map of the first event: the own properties of that object.\<close>

definition observedProperties :: "'org ApiRequest \<Rightarrow> jsobj" where
  "observedProperties req = own_properties (observedObject req)"

text \<open>The variable \<open>convergedObject\<close> after the merge of the body and the two deletions.\<close>

definition convergedObject :: "'org ApiRequest \<Rightarrow> js_object" where
  "convergedObject req =
     delete_property ''authorization''
       (delete_property ''access_token'' (Object_assign (observedObject req) (body req)))"

text \<open>Its own properties, which \<open>JSON.stringify\<close> and the spread read.\<close>

definition convergedProperties :: "'org ApiRequest \<Rightarrow> jsobj" where
  "convergedProperties req = own_properties (convergedObject req)"

text \<open>\<open>logic?.createContext(req)\<close>\<close>

definition callCreateContext ::
  "('org, 'ctx) RepositoryLogic option \<Rightarrow> 'org ApiRequest \<Rightarrow> jsval + 'ctx option"
where
  "callCreateContext logic req =
     (case logic of
        None \<Rightarrow> Inr None
      | Some l \<Rightarrow> (case createContext l req of Inl ex \<Rightarrow> Inl ex | Inr c \<Rightarrow> Inr (Some c)))"

text \<open>The success event; evaluating either of its two properties can throw.\<close>

definition successEvent :: "(jsval \<Rightarrow> jsval + jsval) \<Rightarrow> jsobj \<Rightarrow> jsval \<Rightarrow> jsval + telemetry_event" where
  "successEvent stringify payload repoCreateResponse =
     (case stringify (JObj payload) of
        Inl ex \<Rightarrow> Inl ex
      | Inr request \<Rightarrow>
          (case stringify repoCreateResponse of
             Inl ex \<Rightarrow> Inl ex
           | Inr response \<Rightarrow>
               Inr \<lparr> name = ''ApiRepoCreateRequestSuccess'',
                     properties = [(''request'', request), (''response'', response)] \<rparr>))"

text \<open>The failure event of the catch block; building its properties can throw.\<close>

definition failedEvent :: "(jsval \<Rightarrow> jsval + jsval) \<Rightarrow> jsobj \<Rightarrow> jsval \<Rightarrow> jsval + telemetry_event" where
  "failedEvent stringify payload error =
     (let data = spread payload in
      case read_message error of
        Inl ex \<Rightarrow> Inl ex
      | Inr message \<Rightarrow>
          (case stringify error of
             Inl ex \<Rightarrow> Inl ex
           | Inr encoded \<Rightarrow>
               Inr \<lparr> name = ''ApiRepoCreateFailed'',
                     properties =
                       AList.update ''encodedError'' encoded (AList.update ''error'' message data) \<rparr>))"

definition createRepoHandler :: "('org, 'ctx) externals \<Rightarrow> 'org ApiRequest \<Rightarrow> ('org, 'ctx) outcome" where
  "createRepoHandler ext req =
     (let observed = \<lparr> name = ''ApiRepoCreateRequest'', properties = observedProperties req \<rparr>;
          logic = customizedNewRepositoryLogic ext
      in
      case callCreateContext logic req of
        Inl ex \<Rightarrow>
          \<lparr> tracked = [observed], created = None, status = 200, json = None, forwarded = Some ex \<rparr>
      | Inr customContext \<Rightarrow>
          (let call = \<lparr> call_req = req, call_organization = organization req, call_logic = logic,
                        call_customContext = customContext, call_payload = convergedProperties req,
                 call_payload_prototype = prototype (convergedObject req),
                        call_entrypoint = Api \<rparr>;
               tried =
                 (case CreateRepository ext call of
                    Inl error \<Rightarrow> Inl (200, error)
                  | Inr repoCreateResponse \<Rightarrow>
                      (case successEvent (JSON_stringify ext) (convergedProperties req) repoCreateResponse of
                         Inl error \<Rightarrow> Inl (201, error)
                       | Inr succeeded \<Rightarrow> Inr (succeeded, repoCreateResponse)))
           in
           case tried of
             Inr (succeeded, repoCreateResponse) \<Rightarrow>
               \<lparr> tracked = [observed, succeeded], created = Some call, status = 201,
                 json = Some repoCreateResponse, forwarded = None \<rparr>
           | Inl (code, error) \<Rightarrow>
               (case failedEvent (JSON_stringify ext) (convergedProperties req) error of
                  Inl ex \<Rightarrow>
                    \<lparr> tracked = [observed], created = Some call, status = code, json = None,
                      forwarded = Some ex \<rparr>
                | Inr failed \<Rightarrow>
                    \<lparr> tracked = [observed, failed], created = Some call, status = code, json = None,
                      forwarded = Some error \<rparr>)))"

section \<open>The standard JSON.stringify on tree-shaped values\<close>

text \<open>
  The handler takes \<open>JSON.stringify\<close> as a parameter, so what is proved of it holds
  whatever the runtime does, on circular structures too. This is its standard behaviour on
  the values of \<open>jsval\<close>, which are trees: \<open>undefined\<close> gives \<open>undefined\<close> at the
  top, \<open>null\<close> inside an array, and is left out of an object; a \<open>BigInt\<close> anywhere
  throws a \<open>TypeError\<close>, the first one in order; an \<open>Error\<close> instance is written as
  the object of its enumerable properties. Integers are written in decimal (the exponent
  notation that JavaScript uses from \<open>1e21\<close> on is not modelled).
\<close>

definition digit_char :: "nat \<Rightarrow> char" where
  "digit_char d = char_of (48 + d)"

fun decimal :: "nat \<Rightarrow> string" where
  "decimal n = (if n < 10 then [digit_char n] else decimal (n div 10) @ [digit_char (n mod 10)])"

declare decimal.simps [simp del]

definition number_text :: "int \<Rightarrow> string" where
  "number_text i = (if i < 0 then ''-'' @ decimal (nat (- i)) else decimal (nat i))"

definition hex_char :: "nat \<Rightarrow> char" where
  "hex_char d = (if d < 10 then char_of (48 + d) else char_of (87 + d))"

definition escape_char :: "char \<Rightarrow> string" where
  "escape_char c =
     (let n = (of_char c :: nat) in
      if n = 0x22 then [CHR 0x5C, CHR 0x22]
      else if n = 0x5C then [CHR 0x5C, CHR 0x5C]
      else if n = 8 then [CHR 0x5C, CHR ''b'']
      else if n = 12 then [CHR 0x5C, CHR ''f'']
      else if n = 10 then [CHR 0x5C, CHR ''n'']
      else if n = 13 then [CHR 0x5C, CHR ''r'']
      else if n = 9 then [CHR 0x5C, CHR ''t'']
      else if n < 32 then [CHR 0x5C] @ ''u00'' @ [hex_char (n div 16), hex_char (n mod 16)]
      else [c])"

definition quote :: "string \<Rightarrow> string" where
  "quote s = [CHR 0x22] @ concat (map escape_char s) @ [CHR 0x22]"

fun join :: "string \<Rightarrow> string list \<Rightarrow> string" where
  "join sep [] = []"
| "join sep [x] = x"
| "join sep (x # y # ys) = x @ sep @ join sep (y # ys)"

fun array_text :: "(jsval + string option) list \<Rightarrow> jsval + string list" where
  "array_text [] = Inr []"
| "array_text (Inl ex # rest) = Inl ex"
| "array_text (Inr t # rest) =
     (case array_text rest of
        Inl ex \<Rightarrow> Inl ex
      | Inr ts \<Rightarrow> Inr ((case t of None \<Rightarrow> ''null'' | Some s \<Rightarrow> s) # ts))"

fun object_text :: "(string \<times> (jsval + string option)) list \<Rightarrow> jsval + string list" where
  "object_text [] = Inr []"
| "object_text ((k, Inl ex) # rest) = Inl ex"
| "object_text ((k, Inr t) # rest) =
     (case object_text rest of
        Inl ex \<Rightarrow> Inl ex
      | Inr ts \<Rightarrow> Inr ((case t of None \<Rightarrow> [] | Some s \<Rightarrow> [quote k @ '':'' @ s]) @ ts))"

primrec serialize :: "jsval \<Rightarrow> jsval + string option" where
  "serialize JUndefined = Inr None"
| "serialize JNull = Inr (Some ''null'')"
| "serialize (JBool b) = Inr (Some (if b then ''true'' else ''false''))"
| "serialize (JNum n) = Inr (Some (number_text n))"
| "serialize (JBigInt n) = Inl (JError ''Do not know how to serialize a BigInt'' [])"
| "serialize (JStr s) = Inr (Some (quote s))"
| "serialize (JArr xs) =
     (case array_text (map serialize xs) of
        Inl ex \<Rightarrow> Inl ex
      | Inr ts \<Rightarrow> Inr (Some (''['' @ join '','' ts @ '']'')))"
| "serialize (JObj ps) =
     (case object_text (map (map_prod id serialize) ps) of
        Inl ex \<Rightarrow> Inl ex
      | Inr ts \<Rightarrow> Inr (Some (''{'' @ join '','' ts @ ''}'')))"
| "serialize (JError m ps) =
     (case object_text (map (map_prod id serialize) ps) of
        Inl ex \<Rightarrow> Inl ex
      | Inr ts \<Rightarrow> Inr (Some (''{'' @ join '','' ts @ ''}'')))"

definition standard_stringify :: "jsval \<Rightarrow> jsval + jsval" where
  "standard_stringify v =
     (case serialize v of
        Inl ex \<Rightarrow> Inl ex
      | Inr None \<Rightarrow> Inr JUndefined
      | Inr (Some s) \<Rightarrow> Inr (JStr s))"

section \<open>Sample inputs\<close>

text \<open>
  A request for the organization \<open>acme\<close>: the headers carry an \<open>authorization\<close>
  value, the body an \<open>access_token\<close>, and both name the repository.
\<close>

definition sample_request :: "string ApiRequest" where
  "sample_request =
     \<lparr> path = ''/acme/repos'',
       query = [(''api-version'', JStr ''2019-10-01'')],
       headers = [(''host'', JStr ''portal.example''), (''authorization'', JStr ''Bearer s3cret''),
                  (''name'', JStr ''from-header'')],
       body = [(''name'', JStr ''newrepo''), (''access_token'', JStr ''t0ken'')],
       params_org = ''acme'',
       apiVersion = JStr ''2019-10-01'',
       apiKeyToken = \<lparr> organizationScopes = Some [''acme''] \<rparr>,
       organization = Some ''acme-handle'' \<rparr>"

text \<open>
  No customization hook, the standard \<open>JSON.stringify\<close>, and a \<open>CreateRepository\<close>
  that ends the way it is told to.
\<close>

definition sample_externals :: "jsval + jsval \<Rightarrow> (string, unit) externals" where
  "sample_externals result =
     \<lparr> customizedNewRepositoryLogic = None,
       CreateRepository = (\<lambda>call. result),
       JSON_stringify = standard_stringify \<rparr>"

text \<open>The call of \<open>CreateRepository\<close> that the sample request leads to.\<close>

definition sample_call :: "(string, unit) CreateRepositoryCall" where
  "sample_call =
     \<lparr> call_req = sample_request, call_organization = Some ''acme-handle'', call_logic = None,
       call_customContext = None,
       call_payload = [(''host'', JStr ''portal.example''), (''name'', JStr ''newrepo'')],
       call_payload_prototype = ObjectPrototype,
       call_entrypoint = Api \<rparr>"

text \<open>
  The same request as it arrives, before any middleware has run, and a directory that
  knows the organization \<open>acme\<close> only.
\<close>

definition incoming_request :: "string ApiRequest" where
  "incoming_request =
     \<lparr> path = ''/acme/repos'',
       query = [(''api-version'', JStr ''2019-10-01'')],
       headers = [(''host'', JStr ''portal.example''), (''authorization'', JStr ''Bearer s3cret''),
                  (''name'', JStr ''from-header'')],
       body = [(''name'', JStr ''newrepo''), (''access_token'', JStr ''t0ken'')],
       params_org = ''acme'',
       apiVersion = JUndefined,
       apiKeyToken = \<lparr> organizationScopes = Some [''acme''] \<rparr>,
       organization = None \<rparr>"

definition sample_directory :: "string \<Rightarrow> jsval + string" where
  "sample_directory orgName =
     (if orgName = ''acme'' then Inr ''acme-handle''
      else Inl (JError ''Organization not found'' []))"

text \<open>
  The sample request with a body that has an own key \<open>__proto__\<close>, as
  \<open>JSON.parse\<close> creates it.
\<close>

definition proto_request :: "string ApiRequest" where
  "proto_request =
     sample_request\<lparr>body := [(''__proto__'', JObj [(''admin'', JBool True)]),
                              (''name'', JStr ''newrepo'')]\<rparr>"

section \<open>Objects: property order, assignment, copying\<close>

lemma set_insert_index: "set (insert_index i k v obj) = insert (k, v) (set obj)"
  by (induction obj) (auto split: option.splits)

lemma map_of_insert_index:
  "k \<notin> fst ` set obj \<Longrightarrow> map_of (insert_index i k v obj) = (map_of obj)(k \<mapsto> v)"
  by (induction obj) (auto split: option.splits simp: fun_upd_twist)

lemma distinct_insert_index:
  "k \<notin> fst ` set obj \<Longrightarrow> distinct (map fst obj) \<Longrightarrow> distinct (map fst (insert_index i k v obj))"
  by (induction obj) (auto split: option.splits simp: set_insert_index)

lemma sorted_insert_index:
  "array_index k = Some i \<Longrightarrow> sorted_wrt key_before (map fst obj)
   \<Longrightarrow> sorted_wrt key_before (map fst (insert_index i k v obj))"
proof (induction obj)
  case Nil
  show ?case by simp
next
  case (Cons p obj)
  show ?case
  proof (cases "array_index (fst p)")
    case None
    with Cons.prems show ?thesis
      by (auto simp: key_before_def split: option.splits)
  next
    case (Some j)
    show ?thesis
    proof (cases "j \<le> i")
      case True
      with Some Cons show ?thesis
        by (auto simp: set_insert_index key_before_def)
    next
      case False
      with Some Cons.prems show ?thesis
        by (auto simp: key_before_def split: option.splits)
    qed
  qed
qed

lemma insert_index_last:
  "array_index k = Some i \<Longrightarrow> \<forall>k' \<in> fst ` set obj. key_before k' k
   \<Longrightarrow> insert_index i k v obj = obj @ [(k, v)]"
  by (induction obj) (auto simp: key_before_def split: option.splits)

lemma update_fresh:
  "k \<notin> fst ` set obj \<Longrightarrow> AList.update k v obj = obj @ [(k, v)]"
  by (induction obj) auto

lemma map_of_define_property:
  "map_of (define_property k v obj) = (map_of obj)(k \<mapsto> v)"
  by (simp add: define_property_def AList.update_conv' map_of_insert_index split: option.splits)

lemma keys_define_property:
  "fst ` set (define_property k v obj) = insert k (fst ` set obj)"
  by (auto simp: define_property_def AList.dom_update set_insert_index split: option.splits)

lemma distinct_define_property:
  "distinct (map fst obj) \<Longrightarrow> distinct (map fst (define_property k v obj))"
  by (simp add: define_property_def AList.distinct_update distinct_insert_index split: option.splits)

lemma define_property_last:
  assumes "k \<notin> fst ` set obj" and "\<forall>k' \<in> fst ` set obj. key_before k' k"
  shows "define_property k v obj = obj @ [(k, v)]"
  using assms
  by (simp add: define_property_def update_fresh insert_index_last split: option.splits)

lemma map_fst_update:
  "k \<in> fst ` set obj \<Longrightarrow> map fst (AList.update k v obj) = map fst obj"
  by (induction obj) auto

lemma enumeration_order_define_property:
  assumes "enumeration_order obj"
  shows "enumeration_order (define_property k v obj)"
proof (cases "k \<in> fst ` set obj")
  case True
  with assms show ?thesis
    by (simp add: enumeration_order_def define_property_def map_fst_update split: option.splits)
next
  case False
  show ?thesis
  proof (cases "array_index k")
    case None
    with False assms show ?thesis
      by (auto simp: enumeration_order_def define_property_def update_fresh sorted_wrt_append
          key_before_def)
  next
    case (Some i)
    with False assms show ?thesis
      by (simp add: enumeration_order_def define_property_def distinct_insert_index
          sorted_insert_index)
  qed
qed

lemma enumeration_order_delete:
  "enumeration_order obj \<Longrightarrow> enumeration_order (AList.delete k obj)"
proof -
  have "map fst (AList.delete k obj) = filter (\<lambda>k'. k \<noteq> k') (map fst obj)"
    by (induction obj) auto
  then show "enumeration_order obj \<Longrightarrow> enumeration_order (AList.delete k obj)"
    by (simp add: enumeration_order_def sorted_wrt_filter)
qed

lemma spread_append:
  "enumeration_order (target @ source)
   \<Longrightarrow> foldl (\<lambda>t (k, v). define_property k v t) target source = target @ source"
proof (induction source arbitrary: target)
  case Nil
  show ?case by simp
next
  case (Cons p source)
  obtain k v where p: "p = (k, v)" by (cases p)
  from Cons.prems have "k \<notin> fst ` set target" and "\<forall>k' \<in> fst ` set target. key_before k' k"
    by (auto simp: p enumeration_order_def sorted_wrt_append)
  then have step: "define_property k v target = target @ [(k, v)]"
    by (rule define_property_last)
  from Cons.prems have "enumeration_order ((target @ [(k, v)]) @ source)"
    by (simp add: p)
  then have "foldl (\<lambda>t (k, v). define_property k v t) (target @ [(k, v)]) source
             = (target @ [(k, v)]) @ source"
    by (rule Cons.IH)
  with step show ?case
    by (simp add: p)
qed

lemma spread_enumeration_order: "enumeration_order obj \<Longrightarrow> spread obj = obj"
  unfolding spread_def using spread_append [of "[]" obj] by simp

text \<open>One assignment.\<close>

lemma set_property_other:
  "k \<noteq> ''__proto__'' \<Longrightarrow>
   set_property target k v = target\<lparr>own_properties := define_property k v (own_properties target)\<rparr>"
  by (simp add: set_property_def)

lemma map_of_set_property:
  "k' \<noteq> ''__proto__'' \<Longrightarrow>
   map_of (own_properties (set_property target k v)) k'
   = ((map_of (own_properties target))(k \<mapsto> v)) k'"
  by (simp add: set_property_def map_of_define_property)

lemma enumeration_order_set_property:
  "enumeration_order (own_properties target)
   \<Longrightarrow> enumeration_order (own_properties (set_property target k v))"
  by (simp add: set_property_def enumeration_order_define_property)

lemma enumeration_order_Object_assign:
  "enumeration_order (own_properties target)
   \<Longrightarrow> enumeration_order (own_properties (Object_assign target source))"
  unfolding Object_assign_def
  by (induction source arbitrary: target) (auto simp: enumeration_order_set_property)

lemma map_of_Object_assign:
  "k' \<noteq> ''__proto__'' \<Longrightarrow>
   map_of (own_properties (Object_assign target source)) k'
   = (map_of (own_properties target) ++ map_of (rev source)) k'"
  unfolding Object_assign_def
proof (induction source arbitrary: target)
  case Nil
  show ?case by simp
next
  case (Cons p source)
  obtain k v where p: "p = (k, v)" by (cases p)
  have "map_of (own_properties (foldl (\<lambda>t (k, v). set_property t k v) (set_property target k v) source)) k'
        = (map_of (own_properties (set_property target k v)) ++ map_of (rev source)) k'"
    by (rule Cons.IH) (rule Cons.prems)
  also have "\<dots> = (map_of (own_properties target) ++ map_of (rev (p # source))) k'"
    using Cons.prems
    by (simp add: p map_add_def map_of_set_property split: option.splits)
  finally show ?case by (simp add: p)
qed

lemma map_of_rev_distinct:
  "distinct (map fst ps) \<Longrightarrow> map_of (rev ps) = map_of ps"
  by (rule map_of_inject_set[THEN iffD2]) (auto simp: rev_map[symmetric])

text \<open>When an assigned \<open>__proto__\<close> creates no own property.\<close>

lemma proto_not_own_Object_assign:
  "''__proto__'' \<notin> fst ` set (own_properties target) \<Longrightarrow> distinct (map fst source)
   \<Longrightarrow> reaches_proto_accessor (prototype target) \<or> ''__proto__'' \<notin> fst ` set source
   \<Longrightarrow> ''__proto__'' \<notin> fst ` set (own_properties (Object_assign target source))"
  unfolding Object_assign_def
proof (induction source arbitrary: target)
  case Nil
  then show ?case by simp
next
  case (Cons p source)
  obtain k v where p: "p = (k, v)" by (cases p)
  show ?case
  proof (cases "k = ''__proto__''")
    case True
    with Cons.prems have reach: "reaches_proto_accessor (prototype target)"
      and rest: "''__proto__'' \<notin> fst ` set source"
      by (auto simp: p)
    from True reach Cons.prems(1)
    have own: "own_properties (set_property target k v) = own_properties target"
      by (simp add: set_property_def)
    have "''__proto__'' \<notin> fst ` set (own_properties
            (foldl (\<lambda>t (k, v). set_property t k v) (set_property target k v) source))"
      using Cons.prems rest by (intro Cons.IH) (simp_all add: own)
    then show ?thesis by (simp add: p)
  next
    case False
    then have step: "set_property target k v
                     = target\<lparr>own_properties := define_property k v (own_properties target)\<rparr>"
      by (rule set_property_other)
    have "''__proto__'' \<notin> fst ` set (own_properties
            (foldl (\<lambda>t (k, v). set_property t k v) (set_property target k v) source))"
      using Cons.prems False by (intro Cons.IH) (auto simp: step p keys_define_property)
    then show ?thesis by (simp add: p)
  qed
qed

lemma prototype_Object_assign:
  "''__proto__'' \<notin> fst ` set source \<Longrightarrow> prototype (Object_assign target source) = prototype target"
  unfolding Object_assign_def
  by (induction source arbitrary: target) (auto simp: set_property_def)

section \<open>The payload of the creation handler\<close>

lemma enumeration_order_convergedProperties: "enumeration_order (convergedProperties req)"
proof -
  have "enumeration_order (own_properties (observedObject req))"
    unfolding observedObject_def
    by (rule enumeration_order_Object_assign) (simp add: empty_object_def enumeration_order_def)
  then have "enumeration_order (own_properties (Object_assign (observedObject req) (body req)))"
    by (rule enumeration_order_Object_assign)
  then show ?thesis
    by (simp add: convergedProperties_def convergedObject_def delete_property_def
        enumeration_order_delete)
qed

lemma spread_convergedObject: "spread (convergedProperties req) = convergedProperties req"
  by (rule spread_enumeration_order) (rule enumeration_order_convergedProperties)

lemma map_of_convergedProperties:
  assumes "k \<noteq> ''__proto__''"
  shows "map_of (convergedProperties req) k
   = ((map_of (rev (headers req)) ++ map_of (rev (body req)))
        |` (- {''access_token'', ''authorization''})) k"
proof -
  have observed: "map_of (own_properties (observedObject req)) k = map_of (rev (headers req)) k"
    unfolding observedObject_def
    using assms by (simp add: map_of_Object_assign empty_object_def)
  have "map_of (own_properties (Object_assign (observedObject req) (body req))) k
        = (map_of (rev (headers req)) ++ map_of (rev (body req))) k"
    using assms by (simp add: map_of_Object_assign map_add_def observed split: option.splits)
  then show ?thesis
    by (simp add: convergedProperties_def convergedObject_def delete_property_def
        AList.delete_conv' restrict_map_def)
qed

lemma convergedObject_keys:
  "''access_token'' \<notin> fst ` set (convergedProperties req)"
  "''authorization'' \<notin> fst ` set (convergedProperties req)"
  unfolding convergedProperties_def convergedObject_def delete_property_def
  by (auto simp: AList.delete_eq)

lemma convergedProperties_proto:
  assumes "distinct (map fst (headers req))" and "distinct (map fst (body req))"
    and "''__proto__'' \<notin> fst ` set (headers req)"
  shows "''__proto__'' \<notin> fst ` set (convergedProperties req)"
proof -
  have start: "''__proto__'' \<notin> fst ` set (own_properties (observedObject req))"
    unfolding observedObject_def
    using assms(1) by (intro proto_not_own_Object_assign) (simp_all add: empty_object_def)
  have reach: "reaches_proto_accessor (prototype (observedObject req))"
    unfolding observedObject_def
    using assms(3) by (simp add: prototype_Object_assign empty_object_def)
  have "''__proto__'' \<notin> fst ` set (own_properties (Object_assign (observedObject req) (body req)))"
    using start assms(2) reach by (intro proto_not_own_Object_assign) simp_all
  then show ?thesis
    unfolding convergedProperties_def convergedObject_def delete_property_def
    by (auto simp: AList.delete_eq)
qed

text \<open>The call of \<open>CreateRepository\<close> that a run makes, and when.\<close>

lemma created_createRepoHandler:
  "created (createRepoHandler ext req) =
     (case callCreateContext (customizedNewRepositoryLogic ext) req of
        Inl ex \<Rightarrow> None
      | Inr customContext \<Rightarrow>
          Some \<lparr> call_req = req, call_organization = organization req,
                 call_logic = customizedNewRepositoryLogic ext,
                 call_customContext = customContext, call_payload = convergedProperties req,
                 call_payload_prototype = prototype (convergedObject req),
                 call_entrypoint = Api \<rparr>)"
  unfolding createRepoHandler_def
  by (simp add: Let_def split: sum.splits prod.splits)

lemma created_payload:
  "created (createRepoHandler ext req) = Some call \<Longrightarrow> call_payload call = convergedProperties req"
  by (auto simp: created_createRepoHandler split: sum.splits)

section \<open>The handler on the sample request\<close>

lemma sample_convergedObject:
  "convergedProperties sample_request = [(''host'', JStr ''portal.example''), (''name'', JStr ''newrepo'')]"
  by code_simp

lemma sample_prototype:
  "prototype (convergedObject sample_request) = ObjectPrototype"
  by code_simp

lemma sample_observedProperties:
  "observedProperties sample_request = headers sample_request"
  by code_simp

lemma sample_created:
  "created (createRepoHandler (sample_externals result) sample_request) = Some sample_call"
  by (simp add: created_createRepoHandler callCreateContext_def sample_externals_def
      sample_call_def sample_convergedObject sample_prototype)
    (simp add: sample_request_def)

section \<open>The creation handler\<close>

text \<open>
  C1, as stated, fails. The body of the request holds an own key \<open>__proto__\<close>:
  \<open>Object.assign\<close> assigns it, which sets the prototype of the payload and creates
  no property, so the payload lacks a key that the merge of the header map and the body
  map holds.
\<close>

theorem payload_without_proto_key_counterexample:
  "distinct (map fst (headers proto_request)) \<and> distinct (map fst (body proto_request))
   \<and> map_option call_payload
       (created (createRepoHandler (sample_externals (Inr JNull)) proto_request))
     = Some [(''host'', JStr ''portal.example''), (''name'', JStr ''newrepo'')]
   \<and> map_option call_payload_prototype
       (created (createRepoHandler (sample_externals (Inr JNull)) proto_request))
     = Some (PrototypeObject (JObj [(''admin'', JBool True)]))
   \<and> ((map_of (headers proto_request) ++ map_of (body proto_request))
        |` (- {''access_token'', ''authorization''})) ''__proto__''
     = Some (JObj [(''admin'', JBool True)])
   \<and> map_of [(''host'', JStr ''portal.example''), (''name'', JStr ''newrepo'')]
     \<noteq> (map_of (headers proto_request) ++ map_of (body proto_request))
         |` (- {''access_token'', ''authorization''})"
proof -
  have run:
    "distinct (map fst (headers proto_request)) \<and> distinct (map fst (body proto_request))
     \<and> map_option call_payload
         (created (createRepoHandler (sample_externals (Inr JNull)) proto_request))
       = Some [(''host'', JStr ''portal.example''), (''name'', JStr ''newrepo'')]
     \<and> map_option call_payload_prototype
         (created (createRepoHandler (sample_externals (Inr JNull)) proto_request))
       = Some (PrototypeObject (JObj [(''admin'', JBool True)]))
     \<and> ((map_of (headers proto_request) ++ map_of (body proto_request))
          |` (- {''access_token'', ''authorization''})) ''__proto__''
       = Some (JObj [(''admin'', JBool True)])"
    by code_simp
  have differ:
    "map_of [(''host'', JStr ''portal.example''), (''name'', JStr ''newrepo'')]
     \<noteq> (map_of (headers proto_request) ++ map_of (body proto_request))
         |` (- {''access_token'', ''authorization''})"
  proof
    assume "map_of [(''host'', JStr ''portal.example''), (''name'', JStr ''newrepo'')]
            = (map_of (headers proto_request) ++ map_of (body proto_request))
                |` (- {''access_token'', ''authorization''})"
    then have "map_of [(''host'', JStr ''portal.example''), (''name'', JStr ''newrepo'')] ''__proto__''
               = ((map_of (headers proto_request) ++ map_of (body proto_request))
                    |` (- {''access_token'', ''authorization''})) ''__proto__''"
      by (rule arg_cong [where f = "\<lambda>m. m ''__proto__''"])
    with run show False
      by simp
  qed
  from run differ show ?thesis
    by (intro conjI) (elim conjE, assumption)+
qed

text \<open>
  C1, amended. Whenever the handler calls \<open>CreateRepository\<close>, the payload it passes
  has neither \<open>access_token\<close> nor \<open>authorization\<close> among its own keys, whether they
  came with the headers or with the body. Headers and body being objects (each key listed
  once), the payload maps every key other than \<open>__proto__\<close> as the header map merged
  with the body map does, body keys overriding header keys, without those two keys; and
  when the headers hold no key \<open>__proto__\<close>, the payload holds none either: its
  properties are the merge without the three keys.
\<close>

theorem payload_forwarded_to_CreateRepository:
  assumes "created (createRepoHandler ext req) = Some call"
  shows "''access_token'' \<notin> fst ` set (call_payload call)
       \<and> ''authorization'' \<notin> fst ` set (call_payload call)
       \<and> (distinct (map fst (headers req)) \<and> distinct (map fst (body req)) \<longrightarrow>
            (\<forall>k. k \<noteq> ''__proto__'' \<longrightarrow>
               map_of (call_payload call) k
               = ((map_of (headers req) ++ map_of (body req))
                    |` (- {''access_token'', ''authorization''})) k)
            \<and> (''__proto__'' \<notin> fst ` set (headers req) \<longrightarrow>
                 map_of (call_payload call)
                 = (map_of (headers req) ++ map_of (body req))
                     |` (- {''access_token'', ''authorization'', ''__proto__''})))"
proof -
  have payload: "call_payload call = convergedProperties req"
    using assms by (rule created_payload)
  have keys: "''access_token'' \<notin> fst ` set (call_payload call)
              \<and> ''authorization'' \<notin> fst ` set (call_payload call)"
    by (simp add: payload convergedObject_keys)
  have merged: "map_of (call_payload call) k
                = ((map_of (headers req) ++ map_of (body req))
                     |` (- {''access_token'', ''authorization''})) k"
    if "distinct (map fst (headers req))" "distinct (map fst (body req))" "k \<noteq> ''__proto__''" for k
    using that by (simp add: payload map_of_convergedProperties map_of_rev_distinct)
  have whole: "map_of (call_payload call)
               = (map_of (headers req) ++ map_of (body req))
                   |` (- {''access_token'', ''authorization'', ''__proto__''})"
    if wf: "distinct (map fst (headers req))" "distinct (map fst (body req))"
      and none: "''__proto__'' \<notin> fst ` set (headers req)"
  proof (rule ext)
    fix k
    show "map_of (call_payload call) k
          = ((map_of (headers req) ++ map_of (body req))
               |` (- {''access_token'', ''authorization'', ''__proto__''})) k"
    proof (cases "k = ''__proto__''")
      case True
      from wf none have "''__proto__'' \<notin> fst ` set (call_payload call)"
        unfolding payload by (rule convergedProperties_proto)
      then have "map_of (call_payload call) ''__proto__'' = None"
        by (simp add: map_of_eq_None_iff)
      with True show ?thesis by simp
    next
      case False
      with merged [OF wf False] show ?thesis
        by (simp add: restrict_map_def)
    qed
  qed
  from keys merged whole show ?thesis
    by (intro conjI impI allI) (elim conjE, assumption+)+
qed

theorem payload_forwarded_to_CreateRepository_witness:
  "created (createRepoHandler (sample_externals (Inr JNull)) sample_request) = Some sample_call
   \<and> distinct (map fst (headers sample_request)) \<and> distinct (map fst (body sample_request))
   \<and> ''__proto__'' \<notin> fst ` set (headers sample_request)
   \<and> map_of (call_payload sample_call)
     = (map_of (headers sample_request) ++ map_of (body sample_request))
         |` (- {''access_token'', ''authorization'', ''__proto__''})
   \<and> map_of (call_payload sample_call) ''name'' = Some (JStr ''newrepo'')
   \<and> map_of (call_payload sample_call) ''authorization'' = None
   \<and> map_of (call_payload sample_call) ''access_token'' = None"
proof -
  have made: "created (createRepoHandler (sample_externals (Inr JNull)) sample_request) = Some sample_call"
    by (rule sample_created)
  have wf1: "distinct (map fst (headers sample_request))"
    and wf2: "distinct (map fst (body sample_request))"
    and none: "''__proto__'' \<notin> fst ` set (headers sample_request)"
    by (simp_all add: sample_request_def)
  have l1: "map_of (call_payload sample_call) ''name'' = Some (JStr ''newrepo'')"
    and l2: "map_of (call_payload sample_call) ''authorization'' = None"
    and l3: "map_of (call_payload sample_call) ''access_token'' = None"
    by (simp_all add: sample_call_def)
  from payload_forwarded_to_CreateRepository [OF made] wf1 wf2 none have merged:
    "map_of (call_payload sample_call)
     = (map_of (headers sample_request) ++ map_of (body sample_request))
         |` (- {''access_token'', ''authorization'', ''__proto__''})"
    by simp
  from made wf1 wf2 none merged l1 l2 l3 show ?thesis
    by (intro conjI)
qed

text \<open>
  C2. The claim that no telemetry event carries the key \<open>authorization\<close> fails on the
  first event: \<open>ApiRepoCreateRequest\<close> is tracked with the copy of the headers before
  the two deletions. On the sample request, whose headers hold an \<open>authorization\<close>
  value, the event's property map holds it when \<open>trackEvent\<close> is called.
\<close>

theorem observed_event_carries_authorization:
  "tracked (createRepoHandler (sample_externals (Inr JNull)) sample_request) \<noteq> []
   \<and> name (hd (tracked (createRepoHandler (sample_externals (Inr JNull)) sample_request)))
       = ''ApiRepoCreateRequest''
   \<and> map_of (properties (hd (tracked (createRepoHandler (sample_externals (Inr JNull)) sample_request))))
       ''authorization'' = Some (JStr ''Bearer s3cret'')"
  by (simp add: createRepoHandler_def Let_def sample_observedProperties split: sum.splits prod.splits)
     (simp add: sample_request_def)

text \<open>
  C3, as stated, fails. \<open>CreateRepository\<close> succeeds with a result that holds a
  \<open>BigInt\<close>; serializing it for the success event throws inside the \<open>try\<close> block,
  before \<open>res.json\<close>: no body is sent and the \<open>TypeError\<close> is handed to \<open>next\<close>.
\<close>

theorem success_response_not_sent_counterexample:
  "map_option (CreateRepository (sample_externals (Inr (JObj [(''id'', JBigInt 1)]))))
     (created (createRepoHandler (sample_externals (Inr (JObj [(''id'', JBigInt 1)]))) sample_request))
   = Some (Inr (JObj [(''id'', JBigInt 1)]))
   \<and> json (createRepoHandler (sample_externals (Inr (JObj [(''id'', JBigInt 1)]))) sample_request) = None
   \<and> forwarded (createRepoHandler (sample_externals (Inr (JObj [(''id'', JBigInt 1)]))) sample_request)
     = Some (JError ''Do not know how to serialize a BigInt'' [])"
  by code_simp

text \<open>
  C3, amended. When \<open>CreateRepository\<close> succeeds and serializing the sanitized payload
  and the result does not throw, the handler sets status 201, tracks the success event
  with the two serialized copies and sends the downstream result itself as the body,
  handing nothing to \<open>next\<close>. When one of the two serializations throws, no body is
  sent and an error is handed to \<open>next\<close>.
\<close>

theorem success_response_when_serialization_succeeds:
  assumes "created (createRepoHandler ext req) = Some call"
    and "CreateRepository ext call = Inr repoCreateResponse"
  shows "(JSON_stringify ext (JObj (call_payload call)) = Inr request
          \<and> JSON_stringify ext repoCreateResponse = Inr response \<longrightarrow>
            status (createRepoHandler ext req) = 201
            \<and> json (createRepoHandler ext req) = Some repoCreateResponse
            \<and> forwarded (createRepoHandler ext req) = None
            \<and> tracked (createRepoHandler ext req)
              = [\<lparr> name = ''ApiRepoCreateRequest'', properties = observedProperties req \<rparr>,
                 \<lparr> name = ''ApiRepoCreateRequestSuccess'',
                   properties = [(''request'', request), (''response'', response)] \<rparr>])
       \<and> (isl (JSON_stringify ext (JObj (call_payload call)))
          \<or> isl (JSON_stringify ext repoCreateResponse) \<longrightarrow>
            json (createRepoHandler ext req) = None
            \<and> forwarded (createRepoHandler ext req) \<noteq> None)"
proof -
  from assms(1) obtain customContext where
    ctx: "callCreateContext (customizedNewRepositoryLogic ext) req = Inr customContext"
    and call: "call = \<lparr> call_req = req, call_organization = organization req,
                 call_logic = customizedNewRepositoryLogic ext,
                 call_customContext = customContext, call_payload = convergedProperties req,
                 call_payload_prototype = prototype (convergedObject req),
                 call_entrypoint = Api \<rparr>"
    by (auto simp: created_createRepoHandler split: sum.splits)
  from call have payload: "call_payload call = convergedProperties req"
    by simp
  from assms(2) call have downstream:
    "CreateRepository ext \<lparr> call_req = req, call_organization = organization req,
                 call_logic = customizedNewRepositoryLogic ext,
                 call_customContext = customContext, call_payload = convergedProperties req,
                 call_payload_prototype = prototype (convergedObject req),
                 call_entrypoint = Api \<rparr> = Inr repoCreateResponse"
    by simp
  show ?thesis
    unfolding payload createRepoHandler_def
    by (auto simp: Let_def ctx downstream successEvent_def failedEvent_def isl_def
        split: sum.splits)
qed

theorem success_response_when_serialization_succeeds_witness:
  "created (createRepoHandler (sample_externals (Inr (JObj [(''name'', JStr ''newrepo'')]))) sample_request)
     = Some sample_call
   \<and> CreateRepository (sample_externals (Inr (JObj [(''name'', JStr ''newrepo'')]))) sample_call
     = Inr (JObj [(''name'', JStr ''newrepo'')])
   \<and> status (createRepoHandler (sample_externals (Inr (JObj [(''name'', JStr ''newrepo'')]))) sample_request) = 201
   \<and> json (createRepoHandler (sample_externals (Inr (JObj [(''name'', JStr ''newrepo'')]))) sample_request)
     = Some (JObj [(''name'', JStr ''newrepo'')])
   \<and> forwarded (createRepoHandler (sample_externals (Inr (JObj [(''name'', JStr ''newrepo'')]))) sample_request)
     = None
   \<and> map name (tracked (createRepoHandler (sample_externals (Inr (JObj [(''name'', JStr ''newrepo'')]))) sample_request))
     = [''ApiRepoCreateRequest'', ''ApiRepoCreateRequestSuccess'']"
proof -
  let ?resp = "JObj [(''name'', JStr ''newrepo'')]"
  let ?ext = "sample_externals (Inr ?resp) :: (string, unit) externals"
  let ?request = "JStr (''{'' @ quote ''host'' @ '':'' @ quote ''portal.example'' @ '',''
                        @ quote ''name'' @ '':'' @ quote ''newrepo'' @ ''}'')"
  let ?response = "JStr (''{'' @ quote ''name'' @ '':'' @ quote ''newrepo'' @ ''}'')"
  have made: "created (createRepoHandler ?ext sample_request) = Some sample_call"
    by (rule sample_created)
  have downstream: "CreateRepository ?ext sample_call = Inr ?resp"
    by (simp add: sample_externals_def)
  have s1: "JSON_stringify ?ext (JObj (call_payload sample_call)) = Inr ?request"
    by (simp add: sample_externals_def sample_call_def standard_stringify_def)
  have s2: "JSON_stringify ?ext ?resp = Inr ?response"
    by (simp add: sample_externals_def standard_stringify_def)
  from success_response_when_serialization_succeeds [OF made downstream, of ?request ?response] s1 s2 made downstream
  show ?thesis
    by simp
qed

text \<open>
  C4, as stated, fails. \<open>CreateRepository\<close> rejects with an error that has an
  enumerable \<open>BigInt\<close> property; serializing the error in the \<open>catch\<close> block throws:
  no \<open>ApiRepoCreateFailed\<close> event is tracked and \<open>next\<close> receives the
  \<open>TypeError\<close>, not the error of \<open>CreateRepository\<close>.
\<close>

theorem failure_replaced_counterexample:
  "map_option (CreateRepository (sample_externals (Inl (JError ''Repository creation failed'' [(''id'', JBigInt 1)]))))
     (created (createRepoHandler (sample_externals (Inl (JError ''Repository creation failed'' [(''id'', JBigInt 1)]))) sample_request))
   = Some (Inl (JError ''Repository creation failed'' [(''id'', JBigInt 1)]))
   \<and> forwarded (createRepoHandler (sample_externals (Inl (JError ''Repository creation failed'' [(''id'', JBigInt 1)]))) sample_request)
     = Some (JError ''Do not know how to serialize a BigInt'' [])
   \<and> map name (tracked (createRepoHandler (sample_externals (Inl (JError ''Repository creation failed'' [(''id'', JBigInt 1)]))) sample_request))
     = [''ApiRepoCreateRequest'']"
  by code_simp

text \<open>
  C4, amended. When \<open>CreateRepository\<close> fails with an error whose message can be read
  and whose serialization does not throw, the handler tracks \<open>ApiRepoCreateFailed\<close>
  with a copy of the sanitized payload extended by \<open>error\<close> (the message) and
  \<open>encodedError\<close> (the serialized error), hands that same error to \<open>next\<close> and
  sends no body.
\<close>

theorem failure_reported_and_forwarded:
  assumes "created (createRepoHandler ext req) = Some call"
    and "CreateRepository ext call = Inl error"
    and "read_message error = Inr message"
    and "JSON_stringify ext error = Inr encoded"
  shows "tracked (createRepoHandler ext req)
         = [\<lparr> name = ''ApiRepoCreateRequest'', properties = observedProperties req \<rparr>,
            \<lparr> name = ''ApiRepoCreateFailed'',
              properties =
                AList.update ''encodedError'' encoded
                  (AList.update ''error'' message (call_payload call)) \<rparr>]
       \<and> forwarded (createRepoHandler ext req) = Some error
       \<and> json (createRepoHandler ext req) = None"
proof -
  from assms(1) obtain customContext where
    ctx: "callCreateContext (customizedNewRepositoryLogic ext) req = Inr customContext"
    and call: "call = \<lparr> call_req = req, call_organization = organization req,
                 call_logic = customizedNewRepositoryLogic ext,
                 call_customContext = customContext, call_payload = convergedProperties req,
                 call_payload_prototype = prototype (convergedObject req),
                 call_entrypoint = Api \<rparr>"
    by (auto simp: created_createRepoHandler split: sum.splits)
  from call have payload: "call_payload call = convergedProperties req"
    by simp
  from assms(2) call have downstream:
    "CreateRepository ext \<lparr> call_req = req, call_organization = organization req,
                 call_logic = customizedNewRepositoryLogic ext,
                 call_customContext = customContext, call_payload = convergedProperties req,
                 call_payload_prototype = prototype (convergedObject req),
                 call_entrypoint = Api \<rparr> = Inl error"
    by simp
  have failed: "failedEvent (JSON_stringify ext) (convergedProperties req) error
                = Inr \<lparr> name = ''ApiRepoCreateFailed'',
                        properties =
                          AList.update ''encodedError'' encoded
                            (AList.update ''error'' message (convergedProperties req)) \<rparr>"
    by (simp add: failedEvent_def assms(3) assms(4) spread_convergedObject)
  show ?thesis
    unfolding payload createRepoHandler_def
    by (simp add: Let_def ctx downstream failed)
qed

theorem failure_reported_and_forwarded_witness:
  "created (createRepoHandler (sample_externals (Inl (JError ''Repository creation failed'' [(''status'', JNum 500)]))) sample_request)
     = Some sample_call
   \<and> CreateRepository (sample_externals (Inl (JError ''Repository creation failed'' [(''status'', JNum 500)]))) sample_call
     = Inl (JError ''Repository creation failed'' [(''status'', JNum 500)])
   \<and> forwarded (createRepoHandler (sample_externals (Inl (JError ''Repository creation failed'' [(''status'', JNum 500)]))) sample_request)
     = Some (JError ''Repository creation failed'' [(''status'', JNum 500)])
   \<and> map name (tracked (createRepoHandler (sample_externals (Inl (JError ''Repository creation failed'' [(''status'', JNum 500)]))) sample_request))
     = [''ApiRepoCreateRequest'', ''ApiRepoCreateFailed'']
   \<and> properties (last (tracked (createRepoHandler (sample_externals (Inl (JError ''Repository creation failed'' [(''status'', JNum 500)]))) sample_request)))
     = [(''host'', JStr ''portal.example''), (''name'', JStr ''newrepo''),
        (''error'', JStr ''Repository creation failed''),
        (''encodedError'', JStr (''{'' @ quote ''status'' @ '':500}''))]"
proof -
  let ?err = "JError ''Repository creation failed'' [(''status'', JNum 500)]"
  let ?ext = "sample_externals (Inl ?err) :: (string, unit) externals"
  let ?encoded = "JStr (''{'' @ quote ''status'' @ '':500}'')"
  have made: "created (createRepoHandler ?ext sample_request) = Some sample_call"
    by (rule sample_created)
  have downstream: "CreateRepository ?ext sample_call = Inl ?err"
    by (simp add: sample_externals_def)
  have message: "read_message ?err = Inr (JStr ''Repository creation failed'')"
    by simp
  have "standard_stringify ?err = Inr ?encoded"
    by code_simp
  then have encoded: "JSON_stringify ?ext ?err = Inr ?encoded"
    by (simp add: sample_externals_def)
  from failure_reported_and_forwarded [OF made downstream message encoded] made downstream
  show ?thesis
    by (simp add: sample_call_def)
qed

section \<open>The version gatekeeper\<close>

lemma truthy_requested:
  "truthy (requestedApiVersion req)
   = (truthy (get_prop (query req) ''api-version'') \<or> truthy (get_prop (headers req) ''api-version''))"
  by (simp add: requestedApiVersion_def js_or_def)

text \<open>
  C5. On a path that is not a client route the gatekeeper takes the API version from the
  \<open>api-version\<close> query parameter and, when that supplies no value, from the
  \<open>api-version\<close> header. A supported version in the query is accepted and attached
  to the request whatever the header holds; without a query value a supported version in
  the header is accepted and attached; an unsupported version in the query is refused
  whatever the header holds. The gatekeeper hands the missing-version error with status
  422 to \<open>next\<close> exactly when neither supplies a value, and then whatever middleware
  follows it in the stack does not run.
\<close>

theorem api_version_source_and_missing_version:
  assumes "\<not> isClientRoute req"
  shows "(\<forall>s. get_prop (query req) ''api-version'' = JStr s
             \<and> lower_string s \<in> set hardcodedApiVersions \<longrightarrow>
            versionGatekeeper req = Inr (req\<lparr>apiVersion := JStr s\<rparr>))
       \<and> (\<forall>s. \<not> truthy (get_prop (query req) ''api-version'')
             \<and> get_prop (headers req) ''api-version'' = JStr s
             \<and> lower_string s \<in> set hardcodedApiVersions \<longrightarrow>
            versionGatekeeper req = Inr (req\<lparr>apiVersion := JStr s\<rparr>))
       \<and> (\<forall>s. get_prop (query req) ''api-version'' = JStr s \<and> s \<noteq> []
             \<and> lower_string s \<notin> set hardcodedApiVersions \<longrightarrow>
            isl (versionGatekeeper req))
       \<and> (\<forall>req'. versionGatekeeper req = Inr req' \<longrightarrow>
            req' = req\<lparr>apiVersion :=
                     (if truthy (get_prop (query req) ''api-version'')
                      then get_prop (query req) ''api-version''
                      else get_prop (headers req) ''api-version'')\<rparr>)
       \<and> ((versionGatekeeper req
            = Inl (JsonError (JStr ''This endpoint requires that an API Version be provided.'') 422))
          = (\<not> truthy (get_prop (query req) ''api-version'')
             \<and> \<not> truthy (get_prop (headers req) ''api-version'')))
       \<and> (\<not> truthy (get_prop (query req) ''api-version'')
          \<and> \<not> truthy (get_prop (headers req) ''api-version'') \<longrightarrow>
            (\<forall>later. dispatch (versionGatekeeper # later) req
                = Inl (JsonError (JStr ''This endpoint requires that an API Version be provided.'') 422)))"
proof -
  let ?q = "get_prop (query req) ''api-version''"
  let ?h = "get_prop (headers req) ''api-version''"
  have nonempty: "s \<noteq> []" if "lower_string s \<in> set hardcodedApiVersions" for s
    using that by (auto simp: hardcodedApiVersions_def lower_string_def)
  have supported: "versionGatekeeper req = Inr (req\<lparr>apiVersion := JStr s\<rparr>)"
    if "requestedApiVersion req = JStr s" "lower_string s \<in> set hardcodedApiVersions" for s
  proof -
    from that(2) have "lower_string s \<noteq> lower_string ''2016-09-22_Preview''"
      by (auto simp: hardcodedApiVersions_def lower_string_def lower_char_def)
    with that assms nonempty [OF that(2)] show ?thesis
      by (simp add: versionGatekeeper_def Let_def)
  qed
  have from_query: "versionGatekeeper req = Inr (req\<lparr>apiVersion := JStr s\<rparr>)"
    if "?q = JStr s" "lower_string s \<in> set hardcodedApiVersions" for s
    using that nonempty [OF that(2)]
    by (intro supported) (simp_all add: requestedApiVersion_def js_or_def)
  have from_header: "versionGatekeeper req = Inr (req\<lparr>apiVersion := JStr s\<rparr>)"
    if "\<not> truthy ?q" "?h = JStr s" "lower_string s \<in> set hardcodedApiVersions" for s
    using that by (intro supported) (simp_all add: requestedApiVersion_def js_or_def)
  have refused: "isl (versionGatekeeper req)"
    if "?q = JStr s" "s \<noteq> []" "lower_string s \<notin> set hardcodedApiVersions" for s
    using that assms
    by (simp add: versionGatekeeper_def Let_def requestedApiVersion_def js_or_def)
  have accepted:
    "req' = req\<lparr>apiVersion := (if truthy ?q then ?q else ?h)\<rparr>"
    if "versionGatekeeper req = Inr req'" for req'
    using that assms
    by (auto simp: versionGatekeeper_def Let_def requestedApiVersion_def js_or_def
        split: if_splits sum.splits)
  have missing:
    "(versionGatekeeper req
        = Inl (JsonError (JStr ''This endpoint requires that an API Version be provided.'') 422))
     = (\<not> truthy ?q \<and> \<not> truthy ?h)"
    using assms
    by (auto simp: versionGatekeeper_def Let_def truthy_requested missingVersionError_def
        unsupportedVersionError_def retiredVersionMessage_def hardcodedApiVersions_def
        split: sum.splits)
  have skipped:
    "dispatch (versionGatekeeper # later) req
       = Inl (JsonError (JStr ''This endpoint requires that an API Version be provided.'') 422)"
    if "\<not> truthy ?q" "\<not> truthy ?h" for later
    using that missing by simp
  show ?thesis
  proof (intro conjI allI impI)
    fix s assume "?q = JStr s \<and> lower_string s \<in> set hardcodedApiVersions"
    then show "versionGatekeeper req = Inr (req\<lparr>apiVersion := JStr s\<rparr>)"
      using from_query by blast
  next
    fix s assume "\<not> truthy ?q \<and> ?h = JStr s \<and> lower_string s \<in> set hardcodedApiVersions"
    then show "versionGatekeeper req = Inr (req\<lparr>apiVersion := JStr s\<rparr>)"
      using from_header by blast
  next
    fix s assume "?q = JStr s \<and> s \<noteq> [] \<and> lower_string s \<notin> set hardcodedApiVersions"
    then show "isl (versionGatekeeper req)"
      using refused by blast
  next
    fix req' assume "versionGatekeeper req = Inr req'"
    then show "req' = req\<lparr>apiVersion := (if truthy ?q then ?q else ?h)\<rparr>"
      by (rule accepted)
  next
    show "(versionGatekeeper req
        = Inl (JsonError (JStr ''This endpoint requires that an API Version be provided.'') 422))
     = (\<not> truthy ?q \<and> \<not> truthy ?h)"
      by (rule missing)
  next
    fix later assume "\<not> truthy ?q \<and> \<not> truthy ?h"
    then show "dispatch (versionGatekeeper # later) req
       = Inl (JsonError (JStr ''This endpoint requires that an API Version be provided.'') 422)"
      using skipped by blast
  qed
qed

theorem api_version_source_and_missing_version_witness:
  "\<not> isClientRoute
       (incoming_request\<lparr>query := [(''api-version'', JStr ''2019-10-01'')],
                           headers := [(''api-version'', JStr ''2017-09-01'')]\<rparr>)
   \<and> versionGatekeeper
       (incoming_request\<lparr>query := [(''api-version'', JStr ''2019-10-01'')],
                           headers := [(''api-version'', JStr ''2017-09-01'')]\<rparr>)
     = Inr (incoming_request\<lparr>query := [(''api-version'', JStr ''2019-10-01'')],
                                headers := [(''api-version'', JStr ''2017-09-01'')],
                                apiVersion := JStr ''2019-10-01''\<rparr>)
   \<and> versionGatekeeper
       (incoming_request\<lparr>query := [(''api-version'', JStr [])],
                           headers := [(''api-version'', JStr ''2017-09-01'')]\<rparr>)
     = Inr (incoming_request\<lparr>query := [(''api-version'', JStr [])],
                                headers := [(''api-version'', JStr ''2017-09-01'')],
                                apiVersion := JStr ''2017-09-01''\<rparr>)
   \<and> isl (versionGatekeeper
       (incoming_request\<lparr>query := [(''api-version'', JStr ''1999-01-01'')],
                           headers := [(''api-version'', JStr ''2017-09-01'')]\<rparr>))
   \<and> dispatch [versionGatekeeper, resolveOrganization sample_directory]
       (incoming_request\<lparr>query := [], headers := [(''host'', JStr ''portal.example'')]\<rparr>)
     = Inl (JsonError (JStr ''This endpoint requires that an API Version be provided.'') 422)"
proof -
  let ?both = "incoming_request\<lparr>query := [(''api-version'', JStr ''2019-10-01'')],
                                  headers := [(''api-version'', JStr ''2017-09-01'')]\<rparr>"
  let ?header = "incoming_request\<lparr>query := [(''api-version'', JStr [])],
                                    headers := [(''api-version'', JStr ''2017-09-01'')]\<rparr>"
  let ?old = "incoming_request\<lparr>query := [(''api-version'', JStr ''1999-01-01'')],
                                 headers := [(''api-version'', JStr ''2017-09-01'')]\<rparr>"
  let ?neither = "incoming_request\<lparr>query := [], headers := [(''host'', JStr ''portal.example'')]\<rparr>"
  have nc_both: "\<not> isClientRoute ?both"
    and nc_header: "\<not> isClientRoute ?header"
    and nc_old: "\<not> isClientRoute ?old"
    and nc_neither: "\<not> isClientRoute ?neither"
    by (simp_all add: isClientRoute_def incoming_request_def lower_string_def lower_char_def)
  have from_query: "get_prop (query ?both) ''api-version'' = JStr ''2019-10-01''
                    \<and> lower_string ''2019-10-01'' \<in> set hardcodedApiVersions"
    by (simp add: get_prop_def hardcodedApiVersions_def lower_string_def lower_char_def)
  have from_header: "\<not> truthy (get_prop (query ?header) ''api-version'')
                     \<and> get_prop (headers ?header) ''api-version'' = JStr ''2017-09-01''
                     \<and> lower_string ''2017-09-01'' \<in> set hardcodedApiVersions"
    by (simp add: get_prop_def hardcodedApiVersions_def lower_string_def lower_char_def)
  have old: "get_prop (query ?old) ''api-version'' = JStr ''1999-01-01'' \<and> ''1999-01-01'' \<noteq> []
             \<and> lower_string ''1999-01-01'' \<notin> set hardcodedApiVersions"
    by (simp add: get_prop_def hardcodedApiVersions_def lower_string_def lower_char_def)
  have none: "\<not> truthy (get_prop (query ?neither) ''api-version'')
              \<and> \<not> truthy (get_prop (headers ?neither) ''api-version'')"
    by (simp add: get_prop_def)
  from api_version_source_and_missing_version [OF nc_both] from_query
  have a: "versionGatekeeper ?both = Inr (?both\<lparr>apiVersion := JStr ''2019-10-01''\<rparr>)"
    by blast
  from api_version_source_and_missing_version [OF nc_header] from_header
  have b: "versionGatekeeper ?header = Inr (?header\<lparr>apiVersion := JStr ''2017-09-01''\<rparr>)"
    by blast
  from api_version_source_and_missing_version [OF nc_old] old
  have c: "isl (versionGatekeeper ?old)"
    by blast
  from api_version_source_and_missing_version [OF nc_neither] none
  have d: "dispatch [versionGatekeeper, resolveOrganization sample_directory] ?neither
           = Inl (JsonError (JStr ''This endpoint requires that an API Version be provided.'') 422)"
    by blast
  from nc_both a b c d show ?thesis
    by (intro conjI)
qed

text \<open>
  C6. On a path that is not a client route, a supplied version equal to
  \<open>2016-09-22_Preview\<close> up to letter case is answered with status 422 and a message
  ending in \<open>2019-10-01\<close>, the first entry of the allow-list.
\<close>

theorem retired_version_rejected:
  assumes "\<not> isClientRoute req"
    and "requestedApiVersion req = JStr v"
    and "lower_string v = lower_string ''2016-09-22_Preview''"
  shows "versionGatekeeper req
         = Inl (JsonError (JStr (''This endpoint no longer supports the original preview version. Please update your client to use a newer version such as '' @ ''2019-10-01'')) 422)
       \<and> hd hardcodedApiVersions = ''2019-10-01''"
proof -
  from assms(3) have "v \<noteq> []"
    by (auto simp: lower_string_def)
  with assms show ?thesis
    by (simp add: versionGatekeeper_def Let_def retiredVersionMessage_def hardcodedApiVersions_def)
qed

theorem retired_version_rejected_witness:
  "\<not> isClientRoute (incoming_request\<lparr>query := [(''api-version'', JStr ''2016-09-22_PREVIEW'')], headers := []\<rparr>)
   \<and> requestedApiVersion (incoming_request\<lparr>query := [(''api-version'', JStr ''2016-09-22_PREVIEW'')], headers := []\<rparr>)
     = JStr ''2016-09-22_PREVIEW''
   \<and> lower_string ''2016-09-22_PREVIEW'' = lower_string ''2016-09-22_Preview''
   \<and> versionGatekeeper (incoming_request\<lparr>query := [(''api-version'', JStr ''2016-09-22_PREVIEW'')], headers := []\<rparr>)
     = Inl (JsonError (JStr ''This endpoint no longer supports the original preview version. Please update your client to use a newer version such as 2019-10-01'') 422)"
proof -
  let ?req = "incoming_request\<lparr>query := [(''api-version'', JStr ''2016-09-22_PREVIEW'')], headers := []\<rparr>"
  have nc: "\<not> isClientRoute ?req"
    by (simp add: isClientRoute_def incoming_request_def lower_string_def lower_char_def)
  have supplied: "requestedApiVersion ?req = JStr ''2016-09-22_PREVIEW''"
    by (simp add: requestedApiVersion_def js_or_def get_prop_def)
  have same: "lower_string ''2016-09-22_PREVIEW'' = lower_string ''2016-09-22_Preview''"
    by code_simp
  from retired_version_rejected [OF nc supplied same]
  have rejected: "versionGatekeeper ?req
     = Inl (JsonError (JStr ''This endpoint no longer supports the original preview version. Please update your client to use a newer version such as 2019-10-01'') 422)"
    by simp
  from nc supplied same rejected show ?thesis
    by (intro conjI)
qed

section \<open>Organization resolution\<close>

text \<open>
  C7. The checks of the organization step, in order: a key without organization scopes is
  answered with 412, whichever organization is requested; grants holding neither the
  requested name nor \<open>*\<close> are answered with 401; a directory lookup that throws is
  answered with 400 wrapping what it threw; otherwise the organization is attached to the
  request.
\<close>

theorem organization_resolution_order:
  "(organizationScopes (apiKeyToken req) = None \<longrightarrow>
      (\<forall>orgName. resolveOrganization getOrganization (req\<lparr>params_org := orgName\<rparr>)
         = Inl (JsonError (JStr ''There is a problem with the key configuration (no organization scopes)'') 412)))
   \<and> (\<forall>grants. organizationScopes (apiKeyToken req) = Some grants
         \<and> params_org req \<notin> set grants \<and> ''*'' \<notin> set grants \<longrightarrow>
       resolveOrganization getOrganization req
         = Inl (JsonError (JStr ''The key is not authorized for this organization'') 401))
   \<and> (\<forall>grants ex. organizationScopes (apiKeyToken req) = Some grants
         \<and> (params_org req \<in> set grants \<or> ''*'' \<in> set grants)
         \<and> getOrganization (params_org req) = Inl ex \<longrightarrow>
       resolveOrganization getOrganization req = Inl (JsonError ex 400))
   \<and> (\<forall>grants org. organizationScopes (apiKeyToken req) = Some grants
         \<and> (params_org req \<in> set grants \<or> ''*'' \<in> set grants)
         \<and> getOrganization (params_org req) = Inr org \<longrightarrow>
       resolveOrganization getOrganization req = Inr (req\<lparr>organization := Some org\<rparr>))"
  by (auto simp: resolveOrganization_def hasOrganizationScope_def Let_def)

theorem organization_resolution_order_witness:
  "resolveOrganization sample_directory
     (incoming_request\<lparr>apiKeyToken := \<lparr> organizationScopes = None \<rparr>, params_org := ''contoso''\<rparr>)
     = Inl (JsonError (JStr ''There is a problem with the key configuration (no organization scopes)'') 412)
   \<and> resolveOrganization sample_directory (incoming_request\<lparr>params_org := ''contoso''\<rparr>)
     = Inl (JsonError (JStr ''The key is not authorized for this organization'') 401)
   \<and> resolveOrganization sample_directory
       (incoming_request\<lparr>apiKeyToken := \<lparr> organizationScopes = Some [''*''] \<rparr>, params_org := ''contoso''\<rparr>)
     = Inl (JsonError (JError ''Organization not found'' []) 400)
   \<and> resolveOrganization sample_directory incoming_request
     = Inr (incoming_request\<lparr>organization := Some ''acme-handle''\<rparr>)"
proof -
  let ?nokey = "incoming_request\<lparr>apiKeyToken := \<lparr> organizationScopes = None \<rparr>\<rparr>"
  let ?other = "incoming_request\<lparr>params_org := ''contoso''\<rparr>"
  let ?star = "incoming_request\<lparr>apiKeyToken := \<lparr> organizationScopes = Some [''*''] \<rparr>, params_org := ''contoso''\<rparr>"
  have k1: "organizationScopes (apiKeyToken ?nokey) = None"
    by simp
  have k2: "organizationScopes (apiKeyToken ?other) = Some [''acme'']
            \<and> params_org ?other \<notin> set [''acme''] \<and> ''*'' \<notin> set [''acme'']"
    by (simp add: incoming_request_def)
  have k3: "organizationScopes (apiKeyToken ?star) = Some [''*'']
            \<and> (params_org ?star \<in> set [''*''] \<or> ''*'' \<in> set [''*''])
            \<and> sample_directory (params_org ?star) = Inl (JError ''Organization not found'' [])"
    by (simp add: sample_directory_def)
  have k4: "organizationScopes (apiKeyToken incoming_request) = Some [''acme'']
            \<and> (params_org incoming_request \<in> set [''acme''] \<or> ''*'' \<in> set [''acme''])
            \<and> sample_directory (params_org incoming_request) = Inr ''acme-handle''"
    by (simp add: incoming_request_def sample_directory_def)
  from organization_resolution_order [of ?nokey sample_directory] k1
  have a: "resolveOrganization sample_directory (?nokey\<lparr>params_org := ''contoso''\<rparr>)
     = Inl (JsonError (JStr ''There is a problem with the key configuration (no organization scopes)'') 412)"
    by blast
  from organization_resolution_order [of ?other sample_directory] k2
  have b: "resolveOrganization sample_directory ?other
     = Inl (JsonError (JStr ''The key is not authorized for this organization'') 401)"
    by blast
  from organization_resolution_order [of ?star sample_directory] k3
  have c: "resolveOrganization sample_directory ?star
     = Inl (JsonError (JError ''Organization not found'' []) 400)"
    by blast
  from organization_resolution_order [of incoming_request sample_directory] k4
  have d: "resolveOrganization sample_directory incoming_request
     = Inr (incoming_request\<lparr>organization := Some ''acme-handle''\<rparr>)"
    by blast
  from a b c d show ?thesis
    by simp
qed

section \<open>The administration gate\<close>

text \<open>
  C8. The gate calls \<open>next()\<close> exactly when \<open>isPortalAdministrator()\<close> resolves to
  \<open>true\<close>; when it resolves to \<open>false\<close> and when it rejects, for whatever reason,
  the gate hands the same fixed error to \<open>next\<close>.
\<close>

theorem administration_gate_allows_only_true:
  "(requirePortalAdministrationPermission req = Next)
     = (isPortalAdministrator (individualContext req) = Resolved (JBool True))
   \<and> requirePortalAdministrationPermission
        \<lparr> individualContext = \<lparr> isPortalAdministrator = Resolved (JBool False) \<rparr> \<rparr>
     = NextError (WrapError JNull
         ''These aren't the droids you are looking for. You do not have permission to be here.'' True)
   \<and> requirePortalAdministrationPermission
        \<lparr> individualContext = \<lparr> isPortalAdministrator = Rejected reason \<rparr> \<rparr>
     = NextError (WrapError JNull
         ''These aren't the droids you are looking for. You do not have permission to be here.'' True)"
  by (auto simp: requirePortalAdministrationPermission_def denyRoute_def denyMessage_def
      split: promise.splits)

text \<open>
  C10. The comparison is strict: every resolved value other than the boolean \<open>true\<close>,
  truthy or not, is denied exactly as \<open>false\<close> is.
\<close>

theorem administration_gate_strict_equality:
  assumes "isAdmin \<noteq> JBool True"
  shows "requirePortalAdministrationPermission
           \<lparr> individualContext = \<lparr> isPortalAdministrator = Resolved isAdmin \<rparr> \<rparr>
         = requirePortalAdministrationPermission
           \<lparr> individualContext = \<lparr> isPortalAdministrator = Resolved (JBool False) \<rparr> \<rparr>
       \<and> requirePortalAdministrationPermission
           \<lparr> individualContext = \<lparr> isPortalAdministrator = Resolved isAdmin \<rparr> \<rparr>
         = NextError (WrapError JNull
             ''These aren't the droids you are looking for. You do not have permission to be here.'' True)"
  using assms
  by (simp add: requirePortalAdministrationPermission_def denyRoute_def denyMessage_def)

theorem administration_gate_strict_equality_witness:
  "JStr ''true'' \<noteq> JBool True
   \<and> requirePortalAdministrationPermission
        \<lparr> individualContext = \<lparr> isPortalAdministrator = Resolved (JStr ''true'') \<rparr> \<rparr>
     = requirePortalAdministrationPermission
        \<lparr> individualContext = \<lparr> isPortalAdministrator = Resolved (JBool False) \<rparr> \<rparr>
   \<and> JNum 1 \<noteq> JBool True
   \<and> requirePortalAdministrationPermission
        \<lparr> individualContext = \<lparr> isPortalAdministrator = Resolved (JNum 1) \<rparr> \<rparr>
     = NextError (WrapError JNull
         ''These aren't the droids you are looking for. You do not have permission to be here.'' True)"
proof -
  have s: "JStr ''true'' \<noteq> JBool True" and n: "JNum 1 \<noteq> JBool True"
    by simp_all
  from administration_gate_strict_equality [OF s]
  have a: "requirePortalAdministrationPermission
        \<lparr> individualContext = \<lparr> isPortalAdministrator = Resolved (JStr ''true'') \<rparr> \<rparr>
     = requirePortalAdministrationPermission
        \<lparr> individualContext = \<lparr> isPortalAdministrator = Resolved (JBool False) \<rparr> \<rparr>"
    by (rule conjunct1)
  from administration_gate_strict_equality [OF n]
  have b: "requirePortalAdministrationPermission
        \<lparr> individualContext = \<lparr> isPortalAdministrator = Resolved (JNum 1) \<rparr> \<rparr>
     = NextError (WrapError JNull
         ''These aren't the droids you are looking for. You do not have permission to be here.'' True)"
    by (rule conjunct2)
  from s a n b show ?thesis
    by (intro conjI)
qed

section \<open>Collaborator\<close>

text \<open>
  C9. \<open>getHighestPermission\<close> returns \<open>None\<close> for a collaborator built from
  \<open>null\<close> or \<open>undefined\<close> and for any collaborator whose permissions field holds
  \<open>undefined\<close>, \<open>null\<close> or another falsy value, and the projection of the
  permissions object otherwise.
\<close>

theorem getHighestPermission_none_or_projection:
  "getHighestPermission project (new_Collaborator assignKnownFieldsPrefixed JNull) = PermissionNone
   \<and> getHighestPermission project (new_Collaborator assignKnownFieldsPrefixed JUndefined) = PermissionNone
   \<and> getHighestPermission project (c\<lparr>permissions_field := JUndefined\<rparr>) = PermissionNone
   \<and> getHighestPermission project (c\<lparr>permissions_field := JNull\<rparr>) = PermissionNone
   \<and> getHighestPermission project (c\<lparr>permissions_field := JObj ps\<rparr>) = project (JObj ps)
   \<and> getHighestPermission project c
     = (if truthy (permissions_field c) then project (permissions_field c) else PermissionNone)"
  by (simp add: getHighestPermission_def new_Collaborator_def unassigned_def)

end
